theory Spec2Isabelle
  imports Complex_Main "HOL-Library.Multiset" "HOL-Library.Sublist"
    "HOL-Library.Char_ord" "HOL-Library.List_Lexorder"
begin

section \<open>Errors and JavaScript truthiness\<close>

text \<open>
  The controllers signal failure by throwing one of the error classes of \<open>../errors\<close>,
  each carrying its message. A failure of the persistence layer (a rejected query) propagates
  unchanged and is the constructor \<open>StoreError\<close>; a schema validation failure raised by the
  model layer is \<open>ValidationError\<close>.
\<close>

datatype error =
    BadRequestError string
  | NotFoundError string
  | UnauthenticatedError string
  | ValidationError
  | StoreError string
  | RegexOutsideFragment string

text \<open>
  Request fields are modelled as optional strings: \<open>None\<close> is an absent field
  (\<open>undefined\<close>). A string is falsy exactly when it is empty.
\<close>

definition truthy :: "string option \<Rightarrow> bool" where
  "truthy v = (case v of None \<Rightarrow> False | Some s \<Rightarrow> s \<noteq> [])"

section \<open>JavaScript numbers\<close>

text \<open>
  \<open>Number(req.query.page)\<close> turns a query-string value into a JavaScript number. The model
  keeps the four kinds of value apart: \<open>NaN\<close>, the two infinities and the finite numbers. A
  finite number is kept as the exact rational it denotes; \<open>to_double\<close> sends a magnitude that
  rounds beyond the largest double (from \<open>2^1024 - 2^970\<close> on) to an infinity and a magnitude
  that rounds to zero (up to \<open>2^-1075\<close>) to \<open>0\<close>, so that the
  kind of a value (and with it its truthiness) is that of the double. The rounding of other
  finite values is not modelled: integers of magnitude up to \<open>2^53\<close> are exact. Strings are
  sequences of 8-bit characters, and \<open>-0\<close> is \<open>0\<close>.
\<close>

datatype jsnum = NaN | Fin rat | PInf | NInf

definition overflow_bound :: rat where
  "overflow_bound = 2 ^ 1024 - 2 ^ 970"

definition underflow_scale :: rat where
  "underflow_scale = 2 ^ 1075"

definition to_double :: "rat \<Rightarrow> jsnum" where
  "to_double v =
     (if overflow_bound \<le> \<bar>v\<bar> then (if 0 < v then PInf else NInf)
      else if \<bar>v\<bar> * underflow_scale \<le> 1 then Fin 0
      else Fin v)"









subsection \<open>StringToNumber\<close>













section \<open>controllers/auth.js: login\<close>

record user =
  u_email :: string
  u_password :: string
  u_name :: string
  u_lastName :: string
  u_location :: string

record login_body =
  lb_email :: "string option"
  lb_password :: "string option"

record user_view =
  v_email :: string
  v_lastName :: string
  v_location :: string
  v_name :: string
  v_token :: string

text \<open>\<open>User.findOne({ email })\<close>: the first stored user with that email, if any.\<close>

definition User_findOne :: "user list \<Rightarrow> string \<Rightarrow> user option" where
  "User_findOne users e = find (\<lambda>u. u_email u = e) users"

text \<open>
  The methods \<open>comparePassword\<close> and \<open>createJWT\<close> belong to the user model, which is
  outside the controllers; \<open>login\<close> takes them as parameters.
\<close>

definition login ::
  "(user \<Rightarrow> string \<Rightarrow> bool) \<Rightarrow> (user \<Rightarrow> string) \<Rightarrow> user list \<Rightarrow> login_body
     \<Rightarrow> error + user_view" where
  "login comparePassword createJWT users body =
     (if \<not> truthy (lb_email body) \<or> \<not> truthy (lb_password body)
      then Inl (BadRequestError ''Please provide email and password'')
      else case User_findOne users (the (lb_email body)) of
        None \<Rightarrow> Inl (UnauthenticatedError ''Invalid Credentials'')
      | Some u \<Rightarrow>
          if \<not> comparePassword u (the (lb_password body))
          then Inl (UnauthenticatedError ''Invalid Credentials'')
          else Inr \<lparr>v_email = u_email u, v_lastName = u_lastName u,
                    v_location = u_location u, v_name = u_name u,
                    v_token = createJWT u\<rparr>)"

text \<open>
  A login attempt that supplies both fields fails on its credentials either because the
  email is unknown or because the password comparison fails.
\<close>

definition unknown_email :: "user list \<Rightarrow> login_body \<Rightarrow> bool" where
  "unknown_email users body =
     (truthy (lb_email body) \<and> truthy (lb_password body) \<and>
      User_findOne users (the (lb_email body)) = None)"

definition wrong_password :: "(user \<Rightarrow> string \<Rightarrow> bool) \<Rightarrow> user list \<Rightarrow> login_body \<Rightarrow> bool" where
  "wrong_password comparePassword users body =
     (truthy (lb_email body) \<and> truthy (lb_password body) \<and>
      (case User_findOne users (the (lb_email body)) of
         None \<Rightarrow> False
       | Some u \<Rightarrow> \<not> comparePassword u (the (lb_password body))))"

section \<open>Job records and the document store\<close>

text \<open>
  A job document as the store holds it. Identifiers are strings, taken to be well formed;
  \<open>createdAt\<close> is the creation instant in milliseconds since the Unix epoch. The collection
  is the list of its documents in natural order.
\<close>

type_synonym oid = string

record job =
  job_id :: oid
  company :: string
  position :: string
  status :: string
  jobType :: string
  createdBy :: oid
  createdAt :: int

subsection \<open>Regular-expression search\<close>








subsection \<open>Filtered, sorted, windowed find\<close>






fun insort_by :: "('a \<Rightarrow> 'a \<Rightarrow> bool) \<Rightarrow> 'a \<Rightarrow> 'a list \<Rightarrow> 'a list" where
  "insort_by le x [] = [x]"
| "insort_by le x (y # ys) = (if le x y then x # y # ys else y # insort_by le x ys)"

definition sort_by :: "('a \<Rightarrow> 'a \<Rightarrow> bool) \<Rightarrow> 'a list \<Rightarrow> 'a list" where
  "sort_by le xs = foldr (insort_by le) xs []"







section \<open>controllers/jobs.js: getAllJobs\<close>









subsection \<open>Vocabulary for the properties of getAllJobs\<close>





section \<open>controllers/jobs.js: getJob, createJob, updateJob\<close>


















section \<open>controllers/jobs.js: showStats\<close>

subsection \<open>Grouping and calendar fields\<close>

text \<open>
  \<open>$group\<close> with \<open>count: { $sum: 1 }\<close>: one entry for each distinct key, with the number of
  documents that have it. \<open>$sort\<close> and \<open>$limit\<close> are \<open>sort_by\<close> and \<open>take\<close>.
\<close>

definition group_count :: "('a \<Rightarrow> 'k) \<Rightarrow> 'a list \<Rightarrow> ('k \<times> nat) list" where
  "group_count key xs =
     map (\<lambda>k. (k, length (filter (\<lambda>x. key x = k) xs))) (remdups (map key xs))"

text \<open>
  \<open>$year\<close> and \<open>$month\<close> of an instant, in UTC: the proleptic Gregorian calendar date of the
  day the instant falls on. Months count from 1. The computation counts the days from the
  first of March of a year divisible by 400 (\<open>era\<close>, day and year of the era, day of the
  year and month counted from March) and shifts the month back to a year that starts in
  January.
\<close>

definition civil_from_days :: "int \<Rightarrow> int \<times> int" where
  "civil_from_days days =
     (let z = days + 719468;
          era = z div 146097;
          doe = z - era * 146097;
          yoe = (doe - doe div 1460 + doe div 36524 - doe div 146096) div 365;
          y = yoe + era * 400;
          doy = doe - (365 * yoe + yoe div 4 - yoe div 100);
          mp = (5 * doy + 2) div 153;
          m = (mp + 2) mod 12 + 1
      in (if m \<le> 2 then y + 1 else y, m))"

definition year_month :: "int \<Rightarrow> int \<times> int" where
  "year_month ms = civil_from_days (ms div 86400000)"

subsection \<open>The date label\<close>

text \<open>
  \<open>moment().month(month - 1).year(year).format("MMM Y")\<close> starts from the present day, moves
  it to the month, then to the year, and prints the short month name and the year. A moment
  is modelled by its calendar date, months counting from 0. Setting the month keeps the day
  of the month, cut down to the length of the new month; setting the year keeps month and
  day, and the 29th of February moves to the last day of February of the new year.
\<close>

record moment =
  m_year :: int
  m_month :: int
  m_date :: int

definition isLeapYear :: "int \<Rightarrow> bool" where
  "isLeapYear y = ((y mod 4 = 0 \<and> y mod 100 \<noteq> 0) \<or> y mod 400 = 0)"

definition daysInMonth :: "int \<Rightarrow> int \<Rightarrow> int" where
  "daysInMonth y m =
     (let modMonth = m mod 12; y = y + (m - modMonth) div 12
      in if modMonth = 1 then (if isLeapYear y then 29 else 28)
         else 31 - modMonth mod 7 mod 2)"

definition set_month :: "int \<Rightarrow> moment \<Rightarrow> moment" where
  "set_month v mom =
     (let dayOfMonth = min (m_date mom) (daysInMonth (m_year mom) v)
      in \<lparr>m_year = m_year mom + v div 12, m_month = v mod 12, m_date = dayOfMonth\<rparr>)"

definition set_year :: "int \<Rightarrow> moment \<Rightarrow> moment" where
  "set_year v mom =
     (if isLeapYear (m_year mom) \<and> m_month mom = 1 \<and> m_date mom = 29
      then mom\<lparr>m_year := v, m_date := daysInMonth v (m_month mom)\<rparr>
      else mom\<lparr>m_year := v\<rparr>)"

definition monthsShort :: "string list" where
  "monthsShort = [''Jan'', ''Feb'', ''Mar'', ''Apr'', ''May'', ''Jun'',
                  ''Jul'', ''Aug'', ''Sep'', ''Oct'', ''Nov'', ''Dec'']"

definition digit_char :: "nat \<Rightarrow> char" where
  "digit_char d = ''0123456789'' ! d"

fun dec :: "nat \<Rightarrow> string" where
  "dec n = (if n < 10 then [digit_char n] else dec (n div 10) @ [digit_char (n mod 10)])"

declare dec.simps [simp del]

definition zeroFill :: "int \<Rightarrow> nat \<Rightarrow> string" where
  "zeroFill n len =
     (let digits = dec (nat \<bar>n\<bar>)
      in (if 0 \<le> n then [] else ''-'') @ replicate (len - length digits) CHR ''0'' @ digits)"

definition format_MMM_Y :: "moment \<Rightarrow> string" where
  "format_MMM_Y mom =
     monthsShort ! nat (m_month mom) @ '' '' @
     (if m_year mom \<le> 9999 then zeroFill (m_year mom) 4 else ''+'' @ dec (nat (m_year mom)))"

subsection \<open>The two reports\<close>

record defaultStats =
  pending :: nat
  interview :: nat
  declined :: nat

record month_entry =
  date :: string
  count_of :: nat

record stats_response =
  r_defaultStats :: defaultStats
  r_monthlyApplications :: "month_entry list"

text \<open>
  The \<open>reduce\<close> turns the list of groups into an object keyed by status; a key the object
  lacks reads as \<open>undefined\<close>, and \<open>|| 0\<close> puts 0 in its place.
\<close>

definition reducer :: "(string \<rightharpoonup> nat) \<Rightarrow> string \<times> nat \<Rightarrow> (string \<rightharpoonup> nat)" where
  "reducer acc cur = (let title = fst cur; count = snd cur in acc(title \<mapsto> count))"

definition reduce_stats :: "(string \<times> nat) list \<Rightarrow> (string \<rightharpoonup> nat)" where
  "reduce_stats stats = foldl reducer Map.empty stats"

definition or0 :: "nat option \<Rightarrow> nat" where
  "or0 v = (case v of None \<Rightarrow> 0 | Some c \<Rightarrow> if c = 0 then 0 else c)"

definition ym_desc :: "(int \<times> int) \<times> nat \<Rightarrow> (int \<times> int) \<times> nat \<Rightarrow> bool" where
  "ym_desc a b =
     (fst (fst b) < fst (fst a) \<or> (fst (fst a) = fst (fst b) \<and> snd (fst b) \<le> snd (fst a)))"

definition month_label :: "moment \<Rightarrow> (int \<times> int) \<times> nat \<Rightarrow> month_entry" where
  "month_label today item =
     (let year = fst (fst item); month = snd (fst item); count = snd item;
          date = format_MMM_Y (set_year year (set_month (month - 1) today))
      in \<lparr>date = date, count_of = count\<rparr>)"

definition showStats :: "moment \<Rightarrow> job list \<Rightarrow> oid \<Rightarrow> stats_response" where
  "showStats today store userId =
     (let stats = group_count status (filter (\<lambda>j. createdBy j = userId) store);
          stats = reduce_stats stats;
          defaultStats = \<lparr>pending = or0 (stats ''pending''),
                          interview = or0 (stats ''interview''),
                          declined = or0 (stats ''declined'')\<rparr>;
          monthlyApplications =
            take 6 (sort_by ym_desc
              (group_count (\<lambda>j. year_month (createdAt j))
                 (filter (\<lambda>j. createdBy j = userId) store)));
          monthlyApplications = rev (map (month_label today) monthlyApplications)
      in \<lparr>r_defaultStats = defaultStats, r_monthlyApplications = monthlyApplications\<rparr>)"

subsection \<open>Vocabulary for the properties of showStats\<close>

text \<open>
  The records of a user, the month a record falls in, the months in which the user has at
  least one record, and the chronological order on months.
\<close>

definition records_of :: "job list \<Rightarrow> oid \<Rightarrow> job list" where
  "records_of store userId = filter (\<lambda>j. createdBy j = userId) store"

definition month_of :: "job \<Rightarrow> int \<times> int" where
  "month_of j = year_month (createdAt j)"

definition months_of :: "job list \<Rightarrow> oid \<Rightarrow> (int \<times> int) set" where
  "months_of store userId = set (map month_of (records_of store userId))"

definition earlier :: "int \<times> int \<Rightarrow> int \<times> int \<Rightarrow> bool" where
  "earlier a b = (fst a < fst b \<or> (fst a = fst b \<and> snd a < snd b))"

text \<open>
  The label of a month: its short name, a space and the year, which the \<open>Y\<close> token prints
  with at least four digits and with a plus sign from 10000 on. The entry of a month in the
  report of a user carries this label and the number of the user's records of that month.
\<close>

definition year_text :: "int \<Rightarrow> string" where
  "year_text y = (if y \<le> 9999 then zeroFill y 4 else ''+'' @ dec (nat y))"

definition month_year_label :: "int \<times> int \<Rightarrow> string" where
  "month_year_label k = monthsShort ! nat (snd k - 1) @ '' '' @ year_text (fst k)"

definition month_entry_of :: "job list \<Rightarrow> oid \<Rightarrow> int \<times> int \<Rightarrow> month_entry" where
  "month_entry_of store userId k =
     \<lparr>date = month_year_label k,
      count_of = length (filter (\<lambda>j. month_of j = k) (records_of store userId))\<rparr>"

section \<open>Example data\<close>







section \<open>Properties of login\<close>

text \<open>
  Claim C10. Login fails with the same error, \<open>UnauthenticatedError\<close> with the message
  "Invalid Credentials", when the email matches no registered user and when the email is
  registered but the password comparison fails; so the results of any two such attempts are
  equal, and the error does not tell whether the email is registered.
\<close>

theorem login_indistinguishable:
  assumes "unknown_email users b1"
    and "wrong_password cmp users b2"
  shows "login cmp jwt users b1 = Inl (UnauthenticatedError ''Invalid Credentials'')
       \<and> login cmp jwt users b2 = Inl (UnauthenticatedError ''Invalid Credentials'')
       \<and> login cmp jwt users b1 = login cmp jwt users b2"
  using assms
  by (auto simp: login_def unknown_email_def wrong_password_def split: option.splits)

theorem login_indistinguishable_witness:
  "unknown_email
     [\<lparr>u_email = ''ann@x.io'', u_password = ''s3cret'', u_name = ''Ann'',
       u_lastName = ''Lee'', u_location = ''Oslo''\<rparr>]
     \<lparr>lb_email = Some ''bob@x.io'', lb_password = Some ''guess''\<rparr>
   \<and> wrong_password (\<lambda>u p. u_password u = p)
     [\<lparr>u_email = ''ann@x.io'', u_password = ''s3cret'', u_name = ''Ann'',
       u_lastName = ''Lee'', u_location = ''Oslo''\<rparr>]
     \<lparr>lb_email = Some ''ann@x.io'', lb_password = Some ''guess''\<rparr>
   \<and> login (\<lambda>u p. u_password u = p) (\<lambda>u. u_email u)
     [\<lparr>u_email = ''ann@x.io'', u_password = ''s3cret'', u_name = ''Ann'',
       u_lastName = ''Lee'', u_location = ''Oslo''\<rparr>]
     \<lparr>lb_email = Some ''bob@x.io'', lb_password = Some ''guess''\<rparr>
     = login (\<lambda>u p. u_password u = p) (\<lambda>u. u_email u)
     [\<lparr>u_email = ''ann@x.io'', u_password = ''s3cret'', u_name = ''Ann'',
       u_lastName = ''Lee'', u_location = ''Oslo''\<rparr>]
     \<lparr>lb_email = Some ''ann@x.io'', lb_password = Some ''guess''\<rparr>"
proof -
  let ?us = "[\<lparr>u_email = ''ann@x.io'', u_password = ''s3cret'', u_name = ''Ann'',
       u_lastName = ''Lee'', u_location = ''Oslo''\<rparr>]"
  let ?b1 = "\<lparr>lb_email = Some ''bob@x.io'', lb_password = Some ''guess''\<rparr>"
  let ?b2 = "\<lparr>lb_email = Some ''ann@x.io'', lb_password = Some ''guess''\<rparr>"
  have h1: "unknown_email ?us ?b1"
    by (simp add: unknown_email_def truthy_def User_findOne_def)
  have h2: "wrong_password (\<lambda>u p. u_password u = p) ?us ?b2"
    by (simp add: wrong_password_def truthy_def User_findOne_def)
  from login_indistinguishable [OF h1 h2, of "\<lambda>u. u_email u"] h1 h2
  show ?thesis by blast
qed

section \<open>Evaluation at concrete inputs\<close>






section \<open>Numbers in range\<close>

lemma overflow_bound_gt: "2 ^ 53 < overflow_bound"
  by (simp add: overflow_bound_def)





lemma to_double_zero [simp]: "to_double 0 = Fin 0"
  using overflow_bound_gt by (simp add: to_double_def)




section \<open>The query pipeline\<close>






































section \<open>Search patterns\<close>












section \<open>Properties of the job controllers\<close>

















end
